theory Spec2Isabelle
  imports Complex_Main "HOL-Library.Monad_Syntax"
begin

section \<open>JavaScript values\<close>

text \<open>
  The sketch handles detection records and wire messages as plain JavaScript data. A value
  is one of the constructors below; an object is its list of properties in insertion order.
  Every finite number is a rational, and the publishing path only copies numbers, so
  finite numbers are carried as rationals; \<open>NaN\<close> is its own constructor.
\<close>

datatype jsval =
    JUndefined
  | JNull
  | JBool bool
  | JNum rat
  | JNaN
  | JStr string
  | JArr "jsval list"
  | JObj "(string \<times> jsval) list"

text \<open>Truthiness, as \<open>!v\<close>, \<open>v || d\<close> and \<open>v ? a : b\<close> decide it.\<close>

fun truthy :: "jsval \<Rightarrow> bool" where
  "truthy JUndefined = False"
| "truthy JNull = False"
| "truthy (JBool b) = b"
| "truthy (JNum r) = (r \<noteq> 0)"
| "truthy JNaN = False"
| "truthy (JStr s) = (s \<noteq> [])"
| "truthy (JArr vs) = True"
| "truthy (JObj kvs) = True"

fun nullish :: "jsval \<Rightarrow> bool" where
  "nullish JUndefined = True"
| "nullish JNull = True"
| "nullish v = False"

text \<open>
  \<open>property v k\<close> is the value of \<open>v.k\<close> when \<open>v\<close> is neither \<open>undefined\<close> nor \<open>null\<close>:
  the stored property of an object, \<open>undefined\<close> when the object has no such property, and
  \<open>undefined\<close> on a primitive or an array (none of the names the sketch reads is a
  built-in property). \<open>get v k\<close> is the read as the engine performs it: on \<open>undefined\<close>
  or \<open>null\<close> it throws a TypeError, which is the result \<open>None\<close>.
\<close>

fun property :: "jsval \<Rightarrow> string \<Rightarrow> jsval" where
  "property (JObj kvs) k = (case map_of kvs k of Some v \<Rightarrow> v | None \<Rightarrow> JUndefined)"
| "property v k = JUndefined"

definition get :: "jsval \<Rightarrow> string \<Rightarrow> jsval option" where
  "get v k = (if nullish v then None else Some (property v k))"

section \<open>The globals of the sketch\<close>

datatype readyState = CONNECTING | OPEN | CLOSING | CLOSED

text \<open>
  The result of \<open>JSON.stringify\<close> is a string, or \<open>undefined\<close> for a value that has no
  JSON text. \<open>lastSentData\<close> holds such a result, or \<open>null\<close> (here \<open>None\<close>) initially.
\<close>

datatype serialized = SUndefined | SText string

text \<open>
  \<open>conns\<close> lists every WebSocket object created so far with its \<open>readyState\<close>; the
  variable \<open>socket\<close> refers to one of them by position, or is \<open>undefined\<close> (\<open>None\<close>).
  \<open>timers\<close> are the interval timers that are active, each with its handle and its period
  in milliseconds; \<open>next_timer\<close> is the handle the next \<open>setInterval\<close> returns.
  \<open>sent\<close> records every frame handed to \<open>socket.send\<close>, with the connection it went to.
  \<open>clock\<close> gives the successive readings of \<open>Date.now()\<close> and \<open>reads\<close> counts the
  readings taken so far. \<open>errors\<close> lists what was passed to \<open>console.error\<close> by
  \<open>onerror\<close> and by the detection loop.
\<close>

datatype logged = SocketError nat | DetectionError string

record world =
  conns :: "readyState list"
  socket :: "nat option"
  lastSentData :: "serialized option"
  reconnectInterval :: "nat option"
  timers :: "(nat \<times> nat) list"
  next_timer :: nat
  sent :: "(nat \<times> serialized) list"
  detections :: "jsval list"
  clock :: "nat \<Rightarrow> int"
  reads :: nat
  errors :: "logged list"

definition init :: "(nat \<Rightarrow> int) \<Rightarrow> world" where
  "init clk = \<lparr> conns = [], socket = None, lastSentData = None, reconnectInterval = None,
      timers = [], next_timer = 1, sent = [], detections = [], clock = clk, reads = 0, errors = [] \<rparr>"

definition state_of :: "world \<Rightarrow> nat \<Rightarrow> readyState" where
  "state_of w c = (if c < length (conns w) then conns w ! c else CLOSED)"

section \<open>Connection: setupWebSocket and its handlers\<close>

text \<open>\<open>socket.close()\<close>: a connection that is connecting or open starts closing.\<close>

definition close_conn :: "nat \<Rightarrow> world \<Rightarrow> world" where
  "close_conn c w =
     (if state_of w c = CLOSING \<or> state_of w c = CLOSED then w
      else w\<lparr>conns := (conns w)[c := CLOSING]\<rparr>)"

definition setupWebSocket :: "world \<Rightarrow> world" where
  "setupWebSocket w =
     (let w1 = (case socket w of None \<Rightarrow> w | Some c \<Rightarrow> close_conn c w)
      in w1\<lparr>conns := conns w1 @ [CONNECTING], socket := Some (length (conns w1))\<rparr>)"

definition setInterval :: "nat \<Rightarrow> world \<Rightarrow> nat \<times> world" where
  "setInterval ms w =
     (next_timer w, w\<lparr>timers := timers w @ [(next_timer w, ms)], next_timer := Suc (next_timer w)\<rparr>)"

definition clearInterval :: "nat option \<Rightarrow> world \<Rightarrow> world" where
  "clearInterval h w =
     (case h of None \<Rightarrow> w
      | Some i \<Rightarrow> w\<lparr>timers := filter (\<lambda>t. fst t \<noteq> i) (timers w)\<rparr>)"

text \<open>\<open>!reconnectInterval\<close>: the variable is \<open>undefined\<close>, or holds the number 0.\<close>

definition unset :: "nat option \<Rightarrow> bool" where
  "unset h = (case h of None \<Rightarrow> True | Some i \<Rightarrow> i = 0)"

definition onopen :: "world \<Rightarrow> world" where
  "onopen w = clearInterval (reconnectInterval w) w"

definition onclose :: "world \<Rightarrow> world" where
  "onclose w =
     (if unset (reconnectInterval w)
      then (let (h, w') = setInterval 3000 w in w'\<lparr>reconnectInterval := Some h\<rparr>)
      else w)"

text \<open>
  What happens to the page, one event at a time. \<open>Setup\<close> is the call of
  \<open>setupWebSocket\<close> at the end of \<open>setup\<close>; \<open>Handshake c\<close> is connection \<open>c\<close> becoming
  open, which runs \<open>onopen\<close>; \<open>Closed c\<close> is connection \<open>c\<close> reaching the closed state
  (a failed attempt, a drop by the peer, or the end of a closing handshake), which runs
  \<open>onclose\<close>; \<open>Error c\<close> runs \<open>onerror\<close>, which only logs the error; \<open>RetryTimer h\<close> is the
  interval timer \<open>h\<close> firing, which calls \<open>setupWebSocket\<close>. An event that cannot happen
  in the state gives \<open>None\<close>.
\<close>

datatype event = Setup | Handshake nat | Closed nat | Error nat | RetryTimer nat

fun fire :: "event \<Rightarrow> world \<Rightarrow> world option" where
  "fire Setup w = (if socket w = None then Some (setupWebSocket w) else None)"
| "fire (Handshake c) w =
     (if c < length (conns w) \<and> conns w ! c = CONNECTING
      then Some (onopen (w\<lparr>conns := (conns w)[c := OPEN]\<rparr>)) else None)"
| "fire (Closed c) w =
     (if c < length (conns w) \<and> conns w ! c \<noteq> CLOSED
      then Some (onclose (w\<lparr>conns := (conns w)[c := CLOSED]\<rparr>)) else None)"
| "fire (Error c) w =
     (if c < length (conns w) then Some (w\<lparr>errors := errors w @ [SocketError c]\<rparr>) else None)"
| "fire (RetryTimer h) w =
     (if h \<in> fst ` set (timers w) then Some (setupWebSocket w) else None)"

fun run :: "event list \<Rightarrow> world \<Rightarrow> world option" where
  "run [] w = Some w"
| "run (e # es) w = (case fire e w of None \<Rightarrow> None | Some w' \<Rightarrow> run es w')"

section \<open>formatDataForTD\<close>

definition Date_now :: "world \<Rightarrow> int \<times> world" where
  "Date_now w = (clock w (reads w), w\<lparr>reads := Suc (reads w)\<rparr>)"

text \<open>
  The object literal of \<open>formatDataForTD\<close>, its property reads in source order, for the
  timestamp \<open>t\<close>. The source reads \<open>detection.alignedRect.box\<close> once for each coordinate.
\<close>

definition wire_message :: "int \<Rightarrow> jsval \<Rightarrow> jsval option" where
  "wire_message t detection = do {
     gender \<leftarrow> get detection ''gender'';
     genderProbability \<leftarrow> get detection ''genderProbability'';
     age \<leftarrow> get detection ''age'';
     r1 \<leftarrow> get detection ''alignedRect''; b1 \<leftarrow> get r1 ''box''; x \<leftarrow> get b1 ''x'';
     r2 \<leftarrow> get detection ''alignedRect''; b2 \<leftarrow> get r2 ''box''; y \<leftarrow> get b2 ''y'';
     r3 \<leftarrow> get detection ''alignedRect''; b3 \<leftarrow> get r3 ''box''; width \<leftarrow> get b3 ''width'';
     r4 \<leftarrow> get detection ''alignedRect''; b4 \<leftarrow> get r4 ''box''; height \<leftarrow> get b4 ''height'';
     expressions \<leftarrow> get detection ''expressions'';
     Some (JObj [
       (''timestamp'', JNum (of_int t)),
       (''face'', JObj [
          (''gender'', gender),
          (''genderConfidence'', genderProbability),
          (''age'', age),
          (''position'', JObj [(''x'', x), (''y'', y), (''width'', width), (''height'', height)]),
          (''expressions'', expressions)])])
   }"

definition formatDataForTD :: "jsval \<Rightarrow> world \<Rightarrow> jsval option \<times> world" where
  "formatDataForTD detection w = (let (t, w') = Date_now w in (wire_message t detection, w'))"

section \<open>sendData\<close>

text \<open>
  \<open>JSON.stringify\<close> belongs to the host; it is the parameter \<open>stringify\<close>. The guard
  \<open>!socket || socket.readyState !== WebSocket.OPEN\<close> reads \<open>readyState\<close> only when
  \<open>socket\<close> is defined.
\<close>

definition sendData :: "(jsval \<Rightarrow> serialized) \<Rightarrow> jsval \<Rightarrow> world \<Rightarrow> bool \<times> world" where
  "sendData stringify data w =
     (case socket w of
        None \<Rightarrow> (False, w)
      | Some c \<Rightarrow>
          if state_of w c \<noteq> OPEN then (False, w)
          else (let jsonData = stringify data in
                if Some jsonData \<noteq> lastSentData w
                then (True, w\<lparr>sent := sent w @ [(c, jsonData)], lastSentData := Some jsonData\<rparr>)
                else (False, w)))"

definition is_open :: "world \<Rightarrow> bool" where
  "is_open w = (case socket w of None \<Rightarrow> False | Some c \<Rightarrow> state_of w c = OPEN)"

section \<open>draw: the publishing pass\<close>

text \<open>
  The callback of \<open>detections.forEach\<close>, for one entry. The calls that paint the canvas
  and write to the console change nothing the sketch reads back; they are taken to return
  normally and are left out, with the label they print (defined below). Every other
  statement, each one that can throw or that changes a global, is kept. The destructuring
  \<open>const { x, y, width, height } = detection.alignedRect.box\<close> throws a TypeError when
  the box is \<open>undefined\<close> or \<open>null\<close>.
\<close>

datatype completion = Normal | TypeError

definition skipped :: "jsval \<Rightarrow> bool" where
  "skipped detection \<longleftrightarrow> \<not> truthy detection \<or> \<not> truthy (property detection ''alignedRect'')"

definition box_of :: "jsval \<Rightarrow> jsval" where
  "box_of detection = property (property detection ''alignedRect'') ''box''"

text \<open>
  The label painted next to the face and written to the console:
  \<open>detection.gender || "unknown"\<close> and
  \<open>detection.genderProbability ? (detection.genderProbability * 100).toFixed(1) : 0\<close>.
  The parameter \<open>percent\<close> stands for the host's \<open>(p * 100).toFixed(1)\<close>.
\<close>

definition gender_label :: "jsval \<Rightarrow> jsval" where
  "gender_label detection =
     (let g = property detection ''gender'' in if truthy g then g else JStr ''unknown'')"

definition confidence_label :: "(jsval \<Rightarrow> string) \<Rightarrow> jsval \<Rightarrow> jsval" where
  "confidence_label percent detection =
     (let p = property detection ''genderProbability''
      in if truthy p then JStr (percent p) else JNum 0)"

definition draw_face :: "(jsval \<Rightarrow> serialized) \<Rightarrow> jsval \<Rightarrow> world \<Rightarrow> completion \<times> world" where
  "draw_face stringify detection w =
     (if skipped detection then (Normal, w)
      else if nullish (box_of detection) then (TypeError, w)
      else (case formatDataForTD detection w of
              (None, w1) \<Rightarrow> (TypeError, w1)
            | (Some faceData, w1) \<Rightarrow> (Normal, snd (sendData stringify faceData w1))))"

text \<open>\<open>forEach\<close> calls the callback on each entry in order; a throw ends the pass.\<close>

fun forEach :: "(jsval \<Rightarrow> world \<Rightarrow> completion \<times> world) \<Rightarrow> jsval list \<Rightarrow> world \<Rightarrow> completion \<times> world" where
  "forEach f [] w = (Normal, w)"
| "forEach f (d # ds) w =
     (case f d w of (Normal, w') \<Rightarrow> forEach f ds w' | (TypeError, w') \<Rightarrow> (TypeError, w'))"

definition draw :: "(jsval \<Rightarrow> serialized) \<Rightarrow> world \<Rightarrow> completion \<times> world" where
  "draw stringify w =
     (if length (detections w) > 0 then forEach (draw_face stringify) (detections w) w
      else (Normal, w))"

section \<open>The detection loop\<close>

text \<open>
  One run of the interval callback of \<open>setup\<close>. \<open>ready\<close> is \<open>video.elt.readyState === 4\<close>.
  \<open>detected\<close> is how the awaited \<open>detectAllFaces(...)\<close> chain settles: \<open>Inl e\<close> when it
  throws or rejects with \<open>e\<close>, \<open>Inr ds\<close> when it yields the array \<open>ds\<close>.
  \<open>resizeResults\<close> is \<open>faceapi.resizeResults(_, displaySize)\<close>, which may throw as well.
  The callback touches no global before the awaited call settles, so its whole effect takes
  place in the state in which it resumes. \<open>try_detect\<close> is the body of the \<open>try\<close> block,
  returning the exception that leaves it, if any; \<open>detection_tick\<close> adds the \<open>catch\<close>.
\<close>

definition try_detect ::
    "string + jsval list \<Rightarrow> (jsval list \<Rightarrow> string + jsval list) \<Rightarrow> world \<Rightarrow> string option \<times> world" where
  "try_detect detected resizeResults w =
     (case detected of
        Inl e \<Rightarrow> (Some e, w)
      | Inr ds \<Rightarrow>
          (let w1 = w\<lparr>detections := ds\<rparr>
           in case resizeResults ds of
                Inl e \<Rightarrow> (Some e, w1)
              | Inr ds' \<Rightarrow> (None, w1\<lparr>detections := ds'\<rparr>)))"

definition detection_tick ::
    "bool \<Rightarrow> string + jsval list \<Rightarrow> (jsval list \<Rightarrow> string + jsval list) \<Rightarrow> world \<Rightarrow> world" where
  "detection_tick ready detected resizeResults w =
     (if ready
      then (case try_detect detected resizeResults w of
              (Some error, w') \<Rightarrow> w'\<lparr>errors := errors w' @ [DetectionError error]\<rparr>
            | (None, w') \<Rightarrow> w')
      else w)"

section \<open>The message shape of the specification\<close>

text \<open>
  The shape the specification gives for a wire message, as a check on a value:
  \<open>{ timestamp, face: { gender, genderConfidence, age, position: {x,y,width,height},
  expressions } }\<close>, the timestamp an integer.
\<close>

fun keys :: "jsval \<Rightarrow> string list option" where
  "keys (JObj kvs) = Some (map fst kvs)"
| "keys v = None"

fun is_integer :: "jsval \<Rightarrow> bool" where
  "is_integer (JNum r) = (r = of_int \<lfloor>r\<rfloor>)"
| "is_integer v = False"

definition wire_shape :: "jsval \<Rightarrow> bool" where
  "wire_shape m \<longleftrightarrow>
     keys m = Some [''timestamp'', ''face''] \<and>
     is_integer (property m ''timestamp'') \<and>
     keys (property m ''face'') =
       Some [''gender'', ''genderConfidence'', ''age'', ''position'', ''expressions''] \<and>
     keys (property (property m ''face'') ''position'') = Some [''x'', ''y'', ''width'', ''height'']"

section \<open>Sample inputs\<close>

text \<open>
  Concrete inputs on which the model is run. \<open>sample_stringify\<close> is a serializer to put
  in the place of the host's \<open>JSON.stringify\<close>: it writes compact JSON text, leaves out
  the properties of an object whose value is \<open>undefined\<close>, quotes a string with the
  quote and the backslash escaped (control characters are not treated), and writes an
  integer in decimal digits. A number that is not an integer is written as
  numerator/denominator: the digits the host would choose for a double are not modelled.
  The general results below hold for every serializer and do not depend on this one.
\<close>

fun nat_text :: "nat \<Rightarrow> string" where
  "nat_text n =
     (if n < 10 then [''0123456789'' ! n]
      else nat_text (n div 10) @ [''0123456789'' ! (n mod 10)])"

definition int_text :: "int \<Rightarrow> string" where
  "int_text i = (if i < 0 then CHR ''-'' # nat_text (nat (- i)) else nat_text (nat i))"

definition num_text :: "rat \<Rightarrow> string" where
  "num_text r =
     (let (n, d) = quotient_of r
      in if d = 1 then int_text n else int_text n @ ''/'' @ int_text d)"

fun escape :: "char \<Rightarrow> string" where
  "escape c = (if c = CHR 0x22 \<or> c = CHR 0x5C then [CHR 0x5C, c] else [c])"

definition quote :: "string \<Rightarrow> string" where
  "quote s = CHR 0x22 # concat (map escape s) @ [CHR 0x22]"

fun commas :: "string list \<Rightarrow> string" where
  "commas [] = []"
| "commas [s] = s"
| "commas (s # t # ts) = s @ '','' @ commas (t # ts)"

fun json_text :: "jsval \<Rightarrow> string" where
  "json_text JUndefined = ''null''"
| "json_text JNull = ''null''"
| "json_text (JBool b) = (if b then ''true'' else ''false'')"
| "json_text (JNum r) = num_text r"
| "json_text JNaN = ''null''"
| "json_text (JStr s) = quote s"
| "json_text (JArr vs) = ''['' @ commas (map json_text vs) @ '']''"
| "json_text (JObj kvs) =
     ''{'' @ commas (map (\<lambda>kv. quote (fst kv) @ '':'' @ json_text (snd kv))
                         (filter (\<lambda>kv. snd kv \<noteq> JUndefined) kvs)) @ ''}''"

definition sample_stringify :: "jsval \<Rightarrow> serialized" where
  "sample_stringify v = (if v = JUndefined then SUndefined else SText (json_text v))"

definition sample_clock :: "nat \<Rightarrow> int" where
  "sample_clock n = 1000 + 100 * int n"

text \<open>
  The detection record of the specification's scenario, for a given age, and a record
  that has a box but neither \<open>gender\<close> nor \<open>genderProbability\<close>.
\<close>

definition sample_face :: "rat \<Rightarrow> jsval" where
  "sample_face age = JObj [
     (''alignedRect'', JObj [(''box'',
        JObj [(''x'', JNum 10), (''y'', JNum 10), (''width'', JNum 50), (''height'', JNum 50)])]),
     (''gender'', JStr ''female''),
     (''genderProbability'', JNum (92 / 100)),
     (''age'', JNum age),
     (''expressions'', JObj [(''happy'', JNum (8 / 10))])]"

definition unlabelled_face :: jsval where
  "unlabelled_face = JObj [
     (''alignedRect'', JObj [(''box'',
        JObj [(''x'', JNum 10), (''y'', JNum 10), (''width'', JNum 50), (''height'', JNum 50)])]),
     (''age'', JNum 30),
     (''expressions'', JObj [(''happy'', JNum (8 / 10))])]"

definition sample_message :: "rat \<Rightarrow> jsval" where
  "sample_message age = the (wire_message 1000 (sample_face age))"

text \<open>
  \<open>connected\<close>: the page after its first connection has opened. \<open>reconnected\<close>: the page
  after the first connection failed, the retry timer fired and the second connection opened.
\<close>

definition connected :: world where
  "connected = the (run [Setup, Handshake 0] (init sample_clock))"

definition reconnected :: "(nat \<Rightarrow> int) \<Rightarrow> world" where
  "reconnected clk = the (run [Setup, Closed 0, RetryTimer 1, Handshake 1] (init clk))"

text \<open>A page with five detections, three of which the publishing pass has to step over.\<close>

definition crowded :: world where
  "crowded = connected\<lparr>detections := [JNull, sample_face 30, JObj [(''age'', JNum 30)], JUndefined, sample_face 31]\<rparr>"

section \<open>The retry timer invariant\<close>

text \<open>
  What every reachable state satisfies about the retry timer: at most one is active, timer
  handles are positive, and none is active while \<open>reconnectInterval\<close> is unset.
\<close>

definition timer_inv :: "world \<Rightarrow> bool" where
  "timer_inv w \<longleftrightarrow> length (timers w) \<le> 1 \<and> 0 < next_timer w \<and>
     (unset (reconnectInterval w) \<longrightarrow> timers w = [])"

section \<open>Properties\<close>

lemmas conn_defs = init_def setupWebSocket_def close_conn_def state_of_def onopen_def
  onclose_def clearInterval_def setInterval_def unset_def

subsection \<open>Helper facts\<close>

lemma sendData_not_open: "\<not> is_open w \<Longrightarrow> sendData stringify data w = (False, w)"
  by (simp add: sendData_def is_open_def split: option.splits)

lemma fire_keeps: "fire e w = Some w' \<Longrightarrow> lastSentData w' = lastSentData w \<and> sent w' = sent w"
  by (cases e) (auto simp: setupWebSocket_def close_conn_def onopen_def onclose_def
      clearInterval_def setInterval_def Let_def split: if_splits option.splits)

lemma run_keeps: "run es w = Some w' \<Longrightarrow> lastSentData w' = lastSentData w \<and> sent w' = sent w"
proof (induction es arbitrary: w)
  case Nil
  then show ?case by simp
next
  case (Cons e es)
  then show ?case by (auto split: option.splits dest!: fire_keeps)
qed

lemma sendData_open:
  "is_open w \<Longrightarrow> sendData stringify data w =
     (if lastSentData w \<noteq> Some (stringify data)
      then (True, w\<lparr>sent := sent w @ [(the (socket w), stringify data)],
                     lastSentData := Some (stringify data)\<rparr>)
      else (False, w))"
  by (auto simp: sendData_def is_open_def Let_def split: option.splits)

lemma is_open_sendData: "is_open (snd (sendData stringify data w)) = is_open w"
  by (auto simp: sendData_def is_open_def state_of_def Let_def split: option.splits)

lemma connected_eq:
  "connected = \<lparr> conns = [OPEN], socket = Some 0, lastSentData = None, reconnectInterval = None,
      timers = [], next_timer = 1, sent = [], detections = [], clock = sample_clock, reads = 0,
      errors = [] \<rparr>"
  by (simp add: connected_def conn_defs)

lemma connected_open: "is_open connected"
  by (simp add: connected_eq is_open_def state_of_def)

lemma init_not_open: "\<not> is_open (init clk)"
  by (simp add: init_def is_open_def)

lemma sample_message_eq:
  "sample_message a = JObj [
       (''timestamp'', JNum 1000),
       (''face'', JObj [
          (''gender'', JStr ''female''),
          (''genderConfidence'', JNum (92 / 100)),
          (''age'', JNum a),
          (''position'', JObj [(''x'', JNum 10), (''y'', JNum 10), (''width'', JNum 50), (''height'', JNum 50)]),
          (''expressions'', JObj [(''happy'', JNum (8 / 10))])])]"
  by (simp add: sample_message_def sample_face_def wire_message_def get_def)

lemma sample_texts_differ:
  "sample_stringify (sample_message 30) \<noteq> sample_stringify (sample_message 31)"
  by (simp add: sample_message_eq sample_stringify_def quote_def int_text_def num_text_def)

lemma run_connect: "run [Setup, Handshake 0] (init sample_clock) = Some connected"
  by (simp add: connected_def conn_defs)

lemma reconnected_eq:
  "reconnected clk = \<lparr> conns = [CLOSED, OPEN], socket = Some 1, lastSentData = None,
      reconnectInterval = Some 1, timers = [], next_timer = 2, sent = [], detections = [],
      clock = clk, reads = 0, errors = [] \<rparr>"
  by (simp add: reconnected_def conn_defs)

lemma onclose_stale: "\<not> unset (reconnectInterval w) \<Longrightarrow> onclose w = w"
  by (simp add: onclose_def)

lemma onclose_stale_pow: "\<not> unset (reconnectInterval w) \<Longrightarrow> (onclose ^^ N) w = w"
  by (induction N) (simp_all add: onclose_stale)

lemma onclose_first:
  "unset (reconnectInterval w) \<Longrightarrow> 0 < next_timer w \<Longrightarrow>
   timers (onclose w) = timers w @ [(next_timer w, 3000)] \<and> \<not> unset (reconnectInterval (onclose w))"
  by (simp add: onclose_def setInterval_def unset_def)

lemma closes_schedule_once:
  assumes "unset (reconnectInterval w)" and "0 < next_timer w" and "0 < N"
  shows "timers ((onclose ^^ N) w) = timers w @ [(next_timer w, 3000)]"
proof -
  obtain k where N: "N = Suc k" using assms(3) by (cases N) auto
  have "(onclose ^^ N) w = (onclose ^^ k) (onclose w)"
    unfolding N by (simp only: funpow_Suc_right o_apply)
  also have "\<dots> = onclose w"
    using onclose_first [OF assms(1,2)] by (simp add: onclose_stale_pow)
  finally show ?thesis using onclose_first [OF assms(1,2)] by simp
qed

lemma fire_timer_inv: "timer_inv w \<Longrightarrow> fire e w = Some w' \<Longrightarrow> timer_inv w'"
  by (cases e) (auto simp: timer_inv_def setupWebSocket_def close_conn_def onopen_def onclose_def
      clearInterval_def setInterval_def unset_def Let_def
      intro: le_trans [OF length_filter_le]
      split: if_splits option.splits)

lemma run_timer_inv: "timer_inv w \<Longrightarrow> run es w = Some w' \<Longrightarrow> timer_inv w'"
proof (induction es arbitrary: w)
  case Nil
  then show ?case by simp
next
  case (Cons e es)
  then show ?case by (auto split: option.splits dest: fire_timer_inv)
qed

lemma at_most_one_timer: "run es (init clk) = Some w \<Longrightarrow> length (timers w) \<le> 1"
proof -
  assume r: "run es (init clk) = Some w"
  have "timer_inv (init clk)" by (simp add: timer_inv_def init_def)
  from run_timer_inv [OF this r] show ?thesis by (simp add: timer_inv_def)
qed

lemma draw_face_skipped: "skipped d \<Longrightarrow> draw_face stringify d w = (Normal, w)"
  by (simp add: draw_face_def)

lemma forEach_filter:
  "forEach (draw_face stringify) ds w =
   forEach (draw_face stringify) (filter (\<lambda>d. \<not> skipped d) ds) w"
  by (induction ds arbitrary: w)
    (auto simp: draw_face_skipped split: prod.splits completion.splits)

lemma formatDataForTD_reads: "reads (snd (formatDataForTD d w)) = Suc (reads w)"
  by (simp add: formatDataForTD_def Date_now_def)

lemma detection_success:
  "detections (detection_tick True (Inr ds) (\<lambda>xs. Inr (f xs)) w) = f ds"
  by (simp add: try_detect_def detection_tick_def)

lemma wire_message_shape: "wire_message t d = Some m \<Longrightarrow> wire_shape m"
  by (auto simp: wire_message_def wire_shape_def split: bind_splits)

lemma wire_message_total:
  assumes "\<not> nullish d" and "\<not> nullish (property d ''alignedRect'')" and "\<not> nullish (box_of d)"
  shows "wire_message t d = Some (JObj [
       (''timestamp'', JNum (of_int t)),
       (''face'', JObj [
          (''gender'', property d ''gender''),
          (''genderConfidence'', property d ''genderProbability''),
          (''age'', property d ''age''),
          (''position'', JObj [(''x'', property (box_of d) ''x''), (''y'', property (box_of d) ''y''),
             (''width'', property (box_of d) ''width''), (''height'', property (box_of d) ''height'')]),
          (''expressions'', property d ''expressions'')])])"
  using assms by (simp add: wire_message_def get_def box_of_def)

lemma skipped_not_nullish:
  "\<not> skipped d \<Longrightarrow> \<not> nullish d \<and> \<not> nullish (property d ''alignedRect'')"
  by (cases d; cases "property d ''alignedRect''") (auto simp: skipped_def)

lemma formatDataForTD_fst: "fst (formatDataForTD d w) = wire_message (clock w (reads w)) d"
  by (simp add: formatDataForTD_def Date_now_def)

lemma crowded_pass:
  "map fst (sent (snd (forEach (draw_face sample_stringify) [sample_face 30, sample_face 31] crowded)))
     = [0, 0] \<and>
   reads (snd (forEach (draw_face sample_stringify) [sample_face 30, sample_face 31] crowded)) = 2"
  by code_simp

subsection \<open>Sending while the connection is not open\<close>

text \<open>
  Claim C6. For every payload, \<open>sendData\<close> called while the connection is not open, which
  includes the time before any connection exists (\<open>socket\<close> undefined), returns \<open>false\<close>
  and leaves every global as it was, \<open>lastSentData\<close> among them. No statement on that path
  can throw: \<open>readyState\<close> is read only when \<open>socket\<close> is defined.
\<close>

theorem send_while_not_open_is_noop:
  assumes "\<not> is_open w"
  shows "sendData stringify payload w = (False, w)"
  using assms by (rule sendData_not_open)

theorem send_while_not_open_is_noop_witness:
  "\<not> is_open (init sample_clock) \<and> socket (init sample_clock) = None \<and>
   sendData sample_stringify (sample_message 30) (init sample_clock) = (False, init sample_clock)"
  using send_while_not_open_is_noop [of "init sample_clock" sample_stringify "sample_message 30"]
    init_not_open [of sample_clock]
  by (simp add: init_def)

subsection \<open>A message dropped while the connection is down\<close>

text \<open>
  Claim C1, as amended. A message submitted while the connection is not open is refused
  (\<open>false\<close>) and \<open>lastSentData\<close> is left as it was: the guard on the connection comes
  before the comparison with the snapshot. So when the snapshot did not already hold that
  message, then after any connection events \<open>es\<close> that end with the connection open, the
  same message submitted again is transmitted and only then recorded.
\<close>

theorem dropped_message_not_recorded:
  assumes "\<not> is_open w"
    and "lastSentData w \<noteq> Some (stringify m)"
    and "run es (snd (sendData stringify m w)) = Some w'"
    and "is_open w'"
  shows "sendData stringify m w = (False, w) \<and>
         sendData stringify m w' =
           (True, w'\<lparr>sent := sent w @ [(the (socket w'), stringify m)],
                      lastSentData := Some (stringify m)\<rparr>)"
proof -
  have drop: "sendData stringify m w = (False, w)"
    using assms(1) by (rule sendData_not_open)
  with assms(3) have "run es w = Some w'" by simp
  then have "lastSentData w' = lastSentData w" and "sent w' = sent w"
    using run_keeps by blast+
  with assms(2,4) drop show ?thesis
    by (simp add: sendData_open)
qed

theorem dropped_message_not_recorded_witness:
  "\<not> is_open (init sample_clock) \<and>
   lastSentData (init sample_clock) \<noteq> Some (sample_stringify (sample_message 30)) \<and>
   run [Setup, Handshake 0] (snd (sendData sample_stringify (sample_message 30) (init sample_clock)))
     = Some connected \<and>
   is_open connected \<and>
   sendData sample_stringify (sample_message 30) (init sample_clock) = (False, init sample_clock) \<and>
   fst (sendData sample_stringify (sample_message 30) connected) = True \<and>
   sent (snd (sendData sample_stringify (sample_message 30) connected))
     = [(0, sample_stringify (sample_message 30))]"
proof -
  have a: "\<not> is_open (init sample_clock)" by (rule init_not_open)
  have b: "lastSentData (init sample_clock) \<noteq> Some (sample_stringify (sample_message 30))"
    by (simp add: init_def)
  have c: "run [Setup, Handshake 0]
      (snd (sendData sample_stringify (sample_message 30) (init sample_clock))) = Some connected"
    by (simp add: sendData_not_open [OF a] run_connect del: run.simps)
  have d: "is_open connected" by (rule connected_open)
  from dropped_message_not_recorded [OF a b c d] a b c d show ?thesis
    by (simp add: connected_eq init_def)
qed

text \<open>
  Claim C1 as the specification states it fails: on the page before any connection, the
  refused message is not in \<open>lastSentData\<close> afterwards.
\<close>

theorem snapshot_updated_when_closed_counterexample:
  "\<not> is_open (init sample_clock) \<and>
   \<not> (fst (sendData sample_stringify (sample_message 30) (init sample_clock)) = False \<and>
      lastSentData (snd (sendData sample_stringify (sample_message 30) (init sample_clock)))
        = Some (sample_stringify (sample_message 30)))"
  by (simp add: sendData_not_open [OF init_not_open] init_not_open) (simp add: init_def)

subsection \<open>The result of sendData\<close>

text \<open>
  Claim C3, as amended. \<open>sendData\<close> returns \<open>true\<close> exactly when the connection is open
  and the serialized payload differs from \<open>lastSentData\<close>; in that case it transmits the
  payload on the current connection and records it. In every other case, the connection
  not open or the payload equal to the snapshot, it returns \<open>false\<close> and changes nothing.
\<close>

theorem sendData_result:
  "fst (sendData stringify payload w) = (is_open w \<and> lastSentData w \<noteq> Some (stringify payload)) \<and>
   snd (sendData stringify payload w) =
     (if is_open w \<and> lastSentData w \<noteq> Some (stringify payload)
      then w\<lparr>sent := sent w @ [(the (socket w), stringify payload)],
              lastSentData := Some (stringify payload)\<rparr>
      else w)"
proof (cases "is_open w")
  case True
  then show ?thesis by (simp add: sendData_open)
next
  case False
  then show ?thesis by (simp add: sendData_not_open)
qed

theorem sendData_result_witness:
  "is_open connected \<and> lastSentData connected \<noteq> Some (sample_stringify (sample_message 30)) \<and>
   fst (sendData sample_stringify (sample_message 30) connected) = True \<and>
   sent (snd (sendData sample_stringify (sample_message 30) connected))
     = [(0, sample_stringify (sample_message 30))]"
  using sendData_result [of sample_stringify "sample_message 30" connected] connected_open
  by (simp add: connected_eq)

text \<open>
  Claim C3 as the specification states it fails: with the connection open, the second call
  with the same message returns \<open>false\<close> and transmits nothing more.
\<close>

theorem send_true_whenever_open_counterexample:
  "is_open (snd (sendData sample_stringify (sample_message 30) connected)) \<and>
   fst (sendData sample_stringify (sample_message 30)
          (snd (sendData sample_stringify (sample_message 30) connected))) = False \<and>
   sent (snd (sendData sample_stringify (sample_message 30)
          (snd (sendData sample_stringify (sample_message 30) connected))))
     = [(0, sample_stringify (sample_message 30))]"
proof -
  let ?w1 = "snd (sendData sample_stringify (sample_message 30) connected)"
  have w1: "?w1 = connected\<lparr>sent := [(0, sample_stringify (sample_message 30))],
                lastSentData := Some (sample_stringify (sample_message 30))\<rparr>"
    by (simp add: sendData_open connected_open) (simp add: connected_eq)
  have o1: "is_open ?w1"
    by (simp add: is_open_sendData connected_open)
  have "sendData sample_stringify (sample_message 30) ?w1 = (False, ?w1)"
    using o1 by (simp add: sendData_open) (simp add: w1)
  with o1 show ?thesis by (simp add: w1)
qed

subsection \<open>Suppression of repeated messages\<close>

text \<open>
  Claim C5. With the connection open, and the snapshot not already holding the message (as
  on a fresh page, or after a different message), two calls of \<open>sendData\<close> in a row with
  the same serialized content return \<open>true\<close> and then \<open>false\<close>, and a following call
  with a different serialized payload returns \<open>true\<close> again.
\<close>

theorem idempotent_suppression:
  assumes "is_open w"
    and "lastSentData w \<noteq> Some (stringify m)"
    and "stringify m' \<noteq> stringify m"
  shows "fst (sendData stringify m w) = True \<and>
         fst (sendData stringify m (snd (sendData stringify m w))) = False \<and>
         fst (sendData stringify m'
                (snd (sendData stringify m (snd (sendData stringify m w))))) = True"
proof -
  let ?w1 = "snd (sendData stringify m w)"
  let ?w2 = "snd (sendData stringify m ?w1)"
  have o1: "is_open ?w1" using assms(1) by (simp add: is_open_sendData)
  have l1: "lastSentData ?w1 = Some (stringify m)"
    using assms(1,2) by (simp add: sendData_open)
  have r1: "fst (sendData stringify m w) = True"
    using assms(1,2) by (simp add: sendData_open)
  have s2: "sendData stringify m ?w1 = (False, ?w1)"
    using o1 l1 by (simp add: sendData_open)
  have r3: "fst (sendData stringify m' ?w2) = True"
    using o1 l1 s2 assms(3) by (simp add: sendData_open)
  from r1 s2 r3 show ?thesis by simp
qed

theorem idempotent_suppression_witness:
  "is_open connected \<and>
   lastSentData connected \<noteq> Some (sample_stringify (sample_message 30)) \<and>
   sample_stringify (sample_message 31) \<noteq> sample_stringify (sample_message 30) \<and>
   fst (sendData sample_stringify (sample_message 30) connected) = True \<and>
   fst (sendData sample_stringify (sample_message 30)
          (snd (sendData sample_stringify (sample_message 30) connected))) = False \<and>
   fst (sendData sample_stringify (sample_message 31)
          (snd (sendData sample_stringify (sample_message 30)
             (snd (sendData sample_stringify (sample_message 30) connected))))) = True"
proof -
  have b: "lastSentData connected \<noteq> Some (sample_stringify (sample_message 30))"
    by (simp add: connected_eq)
  have c: "sample_stringify (sample_message 31) \<noteq> sample_stringify (sample_message 30)"
    using sample_texts_differ by simp
  from idempotent_suppression [OF connected_open b c] connected_open b c show ?thesis
    by simp
qed

subsection \<open>Retry after a close\<close>

text \<open>
  Claim C2, evaluated on the sketch. The first close schedules the retry timer with its
  period of 3000 ms. But \<open>onopen\<close> only clears the timer and leaves its handle in
  \<open>reconnectInterval\<close>, so after the first connection failed, the timer fired and the
  second connection opened, the close of that second connection schedules nothing: the
  connection is closed, no timer is active, and no event can open a connection again.
\<close>

theorem no_retry_after_second_outage:
  "map_option timers (run [Setup, Closed 0] (init clk)) = Some [(1, 3000)] \<and>
   map_option (\<lambda>w. (socket w, conns w, timers w))
     (run [Setup, Closed 0, RetryTimer 1, Handshake 1, Closed 1] (init clk))
     = Some (Some 1, [CLOSED, CLOSED], [])"
  by (simp add: conn_defs)

subsection \<open>Consecutive close events\<close>

text \<open>
  Claim C4, evaluated on the sketch. In the state reached once a retry has succeeded the
  connection is open and no retry timer is active; from there any number \<open>N\<close> of runs of
  the close handler leaves no timer active, where the claim asks for exactly one. The
  bound of the claim does hold: \<open>at_most_one_timer\<close> above shows that no reachable state
  has more than one active timer, and \<open>closes_schedule_once\<close> that \<open>N\<close> closes schedule
  one timer as long as \<open>reconnectInterval\<close> was never set.
\<close>

theorem closes_after_reconnect_schedule_nothing:
  "run [Setup, Closed 0, RetryTimer 1, Handshake 1] (init clk) = Some (reconnected clk) \<and>
   is_open (reconnected clk) \<and> timers (reconnected clk) = [] \<and>
   timers ((onclose ^^ N) (reconnected clk)) = []"
proof -
  have "\<not> unset (reconnectInterval (reconnected clk))"
    by (simp add: reconnected_eq unset_def)
  then have "(onclose ^^ N) (reconnected clk) = reconnected clk"
    by (rule onclose_stale_pow)
  moreover have "run [Setup, Closed 0, RetryTimer 1, Handshake 1] (init clk) = Some (reconnected clk)"
    by (simp add: reconnected_def conn_defs)
  ultimately show ?thesis
    by (simp add: reconnected_eq is_open_def state_of_def)
qed

subsection \<open>Missing gender fields\<close>

text \<open>
  Claim C7, as amended. For every detection record that the pass does not skip and that has
  its box, \<open>formatDataForTD\<close> does not fail and copies \<open>gender\<close> and
  \<open>genderProbability\<close> into the wire message as they are, so a missing field is
  \<open>undefined\<close> in the message; the defaults \<open>"unknown"\<close> and \<open>0\<close> are applied only to
  the label that is painted and logged. The record does not end the pass: the entries
  after it are processed from the state it leaves.
\<close>

theorem gender_fields_pass_through:
  assumes "\<not> skipped d" and "\<not> nullish (box_of d)"
  shows "map_option (\<lambda>m. (property (property m ''face'') ''gender'',
                         property (property m ''face'') ''genderConfidence''))
           (fst (formatDataForTD d w))
           = Some (property d ''gender'', property d ''genderProbability'') \<and>
         (property d ''gender'' = JUndefined \<longrightarrow> gender_label d = JStr ''unknown'') \<and>
         (property d ''genderProbability'' = JUndefined \<longrightarrow> confidence_label percent d = JNum 0) \<and>
         fst (draw_face stringify d w) = Normal \<and>
         forEach (draw_face stringify) (d # ds) w =
           forEach (draw_face stringify) ds (snd (draw_face stringify d w))"
proof -
  note nn = skipped_not_nullish [OF assms(1)]
  have m: "fst (formatDataForTD d w) = wire_message (clock w (reads w)) d"
    by (rule formatDataForTD_fst)
  note tot = wire_message_total [OF conjunct1 [OF nn] conjunct2 [OF nn] assms(2), of "clock w (reads w)"]
  have 1: "map_option (\<lambda>m. (property (property m ''face'') ''gender'',
                         property (property m ''face'') ''genderConfidence''))
           (fst (formatDataForTD d w))
           = Some (property d ''gender'', property d ''genderProbability'')"
    by (simp add: m tot)
  have 2: "fst (draw_face stringify d w) = Normal"
  proof -
    obtain r w1 where f: "formatDataForTD d w = (r, w1)"
      by (cases "formatDataForTD d w")
    with m tot obtain msg where "r = Some msg" by simp
    with f assms show ?thesis by (simp add: draw_face_def)
  qed
  have 3: "forEach (draw_face stringify) (d # ds) w =
           forEach (draw_face stringify) ds (snd (draw_face stringify d w))"
    using 2 by (cases "draw_face stringify d w") simp
  from 1 2 3 show ?thesis
    by (simp add: gender_label_def confidence_label_def)
qed

theorem gender_fields_pass_through_witness:
  "\<not> skipped unlabelled_face \<and> \<not> nullish (box_of unlabelled_face) \<and>
   property unlabelled_face ''gender'' = JUndefined \<and>
   property unlabelled_face ''genderProbability'' = JUndefined \<and>
   map_option (\<lambda>m. (property (property m ''face'') ''gender'',
                    property (property m ''face'') ''genderConfidence''))
      (fst (formatDataForTD unlabelled_face connected)) = Some (JUndefined, JUndefined) \<and>
   gender_label unlabelled_face = JStr ''unknown'' \<and>
   confidence_label (\<lambda>p. ''100.0'') unlabelled_face = JNum 0 \<and>
   fst (draw_face sample_stringify unlabelled_face connected) = Normal \<and>
   forEach (draw_face sample_stringify) [unlabelled_face, sample_face 30] connected =
     forEach (draw_face sample_stringify) [sample_face 30]
       (snd (draw_face sample_stringify unlabelled_face connected))"
proof -
  have a: "\<not> skipped unlabelled_face" by (simp add: skipped_def unlabelled_face_def)
  have b: "\<not> nullish (box_of unlabelled_face)" by (simp add: box_of_def unlabelled_face_def)
  have c: "property unlabelled_face ''gender'' = JUndefined \<and>
   property unlabelled_face ''genderProbability'' = JUndefined"
    by (simp add: unlabelled_face_def)
  from gender_fields_pass_through [OF a b, of connected "\<lambda>p. ''100.0''" sample_stringify "[sample_face 30]"]
    a b c show ?thesis by simp
qed

text \<open>
  Claim C7 as the specification states it fails: for a record without \<open>gender\<close> and
  \<open>genderProbability\<close> the wire message carries \<open>undefined\<close> in both places, not
  \<open>"unknown"\<close> and \<open>0\<close>.
\<close>

theorem gender_defaults_counterexample:
  "property unlabelled_face ''gender'' = JUndefined \<and>
   property unlabelled_face ''genderProbability'' = JUndefined \<and>
   fst (formatDataForTD unlabelled_face connected) = Some (JObj [
       (''timestamp'', JNum 1000),
       (''face'', JObj [
          (''gender'', JUndefined),
          (''genderConfidence'', JUndefined),
          (''age'', JNum 30),
          (''position'', JObj [(''x'', JNum 10), (''y'', JNum 10), (''width'', JNum 50), (''height'', JNum 50)]),
          (''expressions'', JObj [(''happy'', JNum (8 / 10))])])]) \<and>
   property (property (the (fst (formatDataForTD unlabelled_face connected))) ''face'') ''gender''
     \<noteq> JStr ''unknown'' \<and>
   property (property (the (fst (formatDataForTD unlabelled_face connected))) ''face'') ''genderConfidence''
     \<noteq> JNum 0"
  by (simp add: formatDataForTD_fst connected_eq sample_clock_def unlabelled_face_def
      wire_message_def get_def)

subsection \<open>The formatter is deterministic\<close>

text \<open>
  Claim C8. The result of \<open>formatDataForTD\<close> depends on the detection record and on the
  clock reading only: two runs with the same record, in any two states in which
  \<open>Date.now()\<close> gives the same reading, return the same value (or both throw), hence the
  same serialized text for every serializer. For a record that has its box the run
  returns a message, and the message has the shape of the specification.
\<close>

theorem formatter_deterministic:
  assumes "clock w1 (reads w1) = clock w2 (reads w2)"
  shows "fst (formatDataForTD d w1) = fst (formatDataForTD d w2) \<and>
         map_option stringify (fst (formatDataForTD d w1)) =
           map_option stringify (fst (formatDataForTD d w2)) \<and>
         (\<not> nullish d \<and> \<not> nullish (property d ''alignedRect'') \<and> \<not> nullish (box_of d)
            \<longrightarrow> map_option wire_shape (fst (formatDataForTD d w1)) = Some True)"
proof -
  have eq: "fst (formatDataForTD d w1) = fst (formatDataForTD d w2)"
    using assms by (simp add: formatDataForTD_fst)
  have shape: "map_option wire_shape (fst (formatDataForTD d w1)) = Some True"
    if "\<not> nullish d" "\<not> nullish (property d ''alignedRect'')" "\<not> nullish (box_of d)"
  proof -
    from wire_message_total [OF that] obtain m
      where m: "wire_message (clock w1 (reads w1)) d = Some m" by blast
    then have "wire_shape m" by (rule wire_message_shape)
    with m show ?thesis by (simp add: formatDataForTD_fst)
  qed
  from eq shape show ?thesis by simp
qed

theorem formatter_deterministic_witness:
  "clock connected (reads connected) = clock (init (\<lambda>n. 1000)) (reads (init (\<lambda>n. 1000))) \<and>
   \<not> nullish (sample_face 30) \<and> \<not> nullish (property (sample_face 30) ''alignedRect'') \<and>
   \<not> nullish (box_of (sample_face 30)) \<and>
   fst (formatDataForTD (sample_face 30) connected) = Some (sample_message 30) \<and>
   fst (formatDataForTD (sample_face 30) (init (\<lambda>n. 1000))) = Some (sample_message 30) \<and>
   wire_shape (sample_message 30)"
proof -
  have a: "clock connected (reads connected) = clock (init (\<lambda>n. 1000)) (reads (init (\<lambda>n. 1000)))"
    by (simp add: connected_eq init_def sample_clock_def)
  have b: "\<not> nullish (sample_face 30) \<and> \<not> nullish (property (sample_face 30) ''alignedRect'') \<and>
   \<not> nullish (box_of (sample_face 30))"
    by (simp add: sample_face_def box_of_def)
  have c: "fst (formatDataForTD (sample_face 30) connected) = Some (sample_message 30)"
    by (simp add: formatDataForTD_fst connected_eq sample_clock_def sample_message_def
        sample_face_def wire_message_def get_def)
  from formatter_deterministic [OF a, of "sample_face 30" sample_stringify] a b c show ?thesis
    by simp
qed

subsection \<open>A failed detection\<close>

text \<open>
  Claim C9. When the awaited detection call throws, the exception leaves the \<open>try\<close> block
  and is caught by the callback: the run of the callback ends normally, having logged the
  error, and \<open>detections\<close> holds what it held before.
\<close>

theorem detection_failure_keeps_detections:
  "fst (try_detect (Inl e) resizeResults w) = Some e \<and>
   detection_tick ready (Inl e) resizeResults w =
     (if ready then w\<lparr>errors := errors w @ [DetectionError e]\<rparr> else w) \<and>
   detections (detection_tick ready (Inl e) resizeResults w) = detections w"
  by (simp add: try_detect_def detection_tick_def)

subsection \<open>Entries the publishing pass steps over\<close>

text \<open>
  Claim C10. An entry that is falsy (\<open>null\<close> or \<open>undefined\<close> among others) or has no
  \<open>alignedRect\<close> is passed over with no effect at all: nothing is sent, and the clock is
  not read, so \<open>formatDataForTD\<close> was not called (\<open>formatDataForTD_reads\<close>). The pass as
  a whole does what it would do on the list of the remaining entries.
\<close>

theorem skipped_entries_are_passed_over:
  "(skipped d \<longrightarrow> draw_face stringify d w = (Normal, w)) \<and>
   draw stringify w =
     forEach (draw_face stringify) (filter (\<lambda>d. \<not> skipped d) (detections w)) w"
proof -
  have "draw stringify w = forEach (draw_face stringify) (detections w) w"
    by (cases "detections w") (simp_all add: draw_def)
  then show ?thesis
    using forEach_filter [of stringify "detections w" w] by (simp add: draw_face_skipped)
qed

theorem skipped_entries_are_passed_over_witness:
  "skipped JNull \<and> draw_face sample_stringify JNull crowded = (Normal, crowded) \<and>
   filter (\<lambda>d. \<not> skipped d) (detections crowded) = [sample_face 30, sample_face 31] \<and>
   draw sample_stringify crowded =
     forEach (draw_face sample_stringify) [sample_face 30, sample_face 31] crowded \<and>
   map fst (sent (snd (draw sample_stringify crowded))) = [0, 0] \<and>
   reads (snd (draw sample_stringify crowded)) = 2"
proof -
  have a: "skipped JNull" by (simp add: skipped_def)
  have b: "filter (\<lambda>d. \<not> skipped d) (detections crowded) = [sample_face 30, sample_face 31]"
    by (simp add: crowded_def skipped_def sample_face_def)
  from skipped_entries_are_passed_over [of JNull sample_stringify crowded] a b crowded_pass
  show ?thesis by simp
qed

end
